theory Spec2Isabelle
  imports Complex_Main
begin

section \<open>JavaScript numbers and strings\<close>

text \<open>
  The catalog browser is TypeScript: page numbers, counts and price bounds are JavaScript
  numbers. A number is modelled as \<open>NaN\<close>, one of the two infinities, or a finite value
  held as an exact rational. Negative zero is identified with zero, and arithmetic on finite
  values is exact. IEEE doubles round: the two agree where the operands and the result are
  integers of magnitude up to \<open>2 ^ 53\<close>, the range of the counts, page numbers and offsets
  the controller works with, and a quotient of such an integer by the page size has the
  ceiling of the exact quotient. The properties below that compute with numbers are stated
  within that range.
\<close>

datatype jsnum = NaN | NegInf | PosInf | Fin rat

text \<open>The relational operator \<open>a < b\<close>; any comparison with \<open>NaN\<close> is false.\<close>

fun js_less :: "jsnum \<Rightarrow> jsnum \<Rightarrow> bool" where
  "js_less NaN _ = False"
| "js_less _ NaN = False"
| "js_less (Fin a) (Fin b) = (a < b)"
| "js_less NegInf NegInf = False"
| "js_less NegInf _ = True"
| "js_less _ NegInf = False"
| "js_less PosInf _ = False"
| "js_less _ PosInf = True"

text \<open>\<open>a <= b\<close>: neither operand is \<open>NaN\<close> and \<open>b < a\<close> is false.\<close>

definition js_le :: "jsnum \<Rightarrow> jsnum \<Rightarrow> bool" where
  "js_le a b = (a \<noteq> NaN \<and> b \<noteq> NaN \<and> \<not> js_less b a)"

fun js_sub :: "jsnum \<Rightarrow> jsnum \<Rightarrow> jsnum" where
  "js_sub NaN _ = NaN"
| "js_sub _ NaN = NaN"
| "js_sub (Fin a) (Fin b) = Fin (a - b)"
| "js_sub PosInf PosInf = NaN"
| "js_sub NegInf NegInf = NaN"
| "js_sub PosInf _ = PosInf"
| "js_sub NegInf _ = NegInf"
| "js_sub _ PosInf = NegInf"
| "js_sub _ NegInf = PosInf"

text \<open>The sign of an infinite product or quotient: \<open>pos\<close> says whether the signs agree.\<close>

definition js_inf :: "bool \<Rightarrow> jsnum" where
  "js_inf pos = (if pos then PosInf else NegInf)"

fun js_mul :: "jsnum \<Rightarrow> jsnum \<Rightarrow> jsnum" where
  "js_mul NaN _ = NaN"
| "js_mul _ NaN = NaN"
| "js_mul (Fin a) (Fin b) = Fin (a * b)"
| "js_mul (Fin a) PosInf = (if a = 0 then NaN else js_inf (0 < a))"
| "js_mul (Fin a) NegInf = (if a = 0 then NaN else js_inf (a < 0))"
| "js_mul PosInf (Fin b) = (if b = 0 then NaN else js_inf (0 < b))"
| "js_mul NegInf (Fin b) = (if b = 0 then NaN else js_inf (b < 0))"
| "js_mul PosInf PosInf = PosInf"
| "js_mul PosInf NegInf = NegInf"
| "js_mul NegInf PosInf = NegInf"
| "js_mul NegInf NegInf = PosInf"

fun js_div :: "jsnum \<Rightarrow> jsnum \<Rightarrow> jsnum" where
  "js_div NaN _ = NaN"
| "js_div _ NaN = NaN"
| "js_div (Fin a) (Fin b) =
     (if b = 0 then (if a = 0 then NaN else js_inf (0 < a)) else Fin (a / b))"
| "js_div (Fin a) _ = Fin 0"
| "js_div PosInf (Fin b) = js_inf (0 \<le> b)"
| "js_div NegInf (Fin b) = js_inf (b < 0)"
| "js_div _ _ = NaN"

text \<open>\<open>Math.ceil\<close>, \<open>isNaN\<close>, and the truthiness that \<open>||\<close> tests.\<close>

fun Math_ceil :: "jsnum \<Rightarrow> jsnum" where
  "Math_ceil (Fin q) = Fin (of_int \<lceil>q\<rceil>)"
| "Math_ceil x = x"

definition isNaN :: "jsnum \<Rightarrow> bool" where
  "isNaN x = (x = NaN)"

definition truthy :: "jsnum \<Rightarrow> bool" where
  "truthy x = (x \<noteq> NaN \<and> x \<noteq> Fin 0)"

definition js_or :: "jsnum \<Rightarrow> jsnum \<Rightarrow> jsnum" where
  "js_or a b = (if truthy a then a else b)"

subsection \<open>Conversions between strings and numbers\<close>

text \<open>
  The conversions are the language runtime's. They are modelled where their result is plain:
  a string of decimal digits denotes its value (exactly, up to \<open>2 ^ 53\<close>), and an integer of
  magnitude up to \<open>2 ^ 53\<close> prints as its decimal digits (a larger one prints the shortest
  digits that read back as the same double, padded with zeros, or an exponent). What the
  runtime does with every other string (signs, fractions, exponents, blanks, hexadecimal) and
  how it prints every other finite number is a parameter of the model, so that each result
  below holds whatever the runtime does there.
\<close>

record runtime =
  number_of_other :: "string \<Rightarrow> jsnum"
  string_of_other :: "rat \<Rightarrow> string"

definition is_digit :: "char \<Rightarrow> bool" where
  "is_digit c = (48 \<le> (of_char c :: nat) \<and> (of_char c :: nat) \<le> 57)"

definition dec_value :: "string \<Rightarrow> nat" where
  "dec_value s = foldl (\<lambda>n c. 10 * n + (of_char c - 48)) 0 s"

definition is_decimal :: "string \<Rightarrow> bool" where
  "is_decimal s = (s \<noteq> [] \<and> list_all is_digit s \<and> dec_value s \<le> 2 ^ 53)"

text \<open>\<open>Number(s)\<close> and unary \<open>+s\<close> on a string.\<close>

definition to_Number :: "runtime \<Rightarrow> string \<Rightarrow> jsnum" where
  "to_Number rt s = (if is_decimal s then Fin (of_nat (dec_value s)) else number_of_other rt s)"

fun dec_string :: "nat \<Rightarrow> string" where
  "dec_string n =
     (if n < 10 then [char_of (48 + n)]
      else dec_string (n div 10) @ [char_of (48 + n mod 10)])"

definition is_plain_integer :: "rat \<Rightarrow> bool" where
  "is_plain_integer q = (of_int \<lfloor>q\<rfloor> = q \<and> \<bar>q\<bar> \<le> 2 ^ 53)"

text \<open>The text a number contributes to a template literal.\<close>

fun num_to_string :: "runtime \<Rightarrow> jsnum \<Rightarrow> string" where
  "num_to_string rt NaN = ''NaN''"
| "num_to_string rt PosInf = ''Infinity''"
| "num_to_string rt NegInf = ''-Infinity''"
| "num_to_string rt (Fin q) =
     (if is_plain_integer q
      then (if q < 0 then ''-'' else '''') @ dec_string (nat \<bar>\<lfloor>q\<rfloor>\<bar>)
      else string_of_other rt q)"

text \<open>\<open>Array.prototype.join\<close> on an array of strings.\<close>

fun join :: "string \<Rightarrow> string list \<Rightarrow> string" where
  "join sep [] = []"
| "join sep [x] = x"
| "join sep (x # y # ys) = x @ sep @ join sep (y # ys)"

definition nl :: string where
  "nl = [CHR 0x0A]"

section \<open>The query builder (\<open>api.service.ts\<close>)\<close>

text \<open>A label is embedded as a quoted literal: the mapping \<open>c => `"${c}"`\<close>.\<close>

definition quoted :: "string \<Rightarrow> string" where
  \<open>quoted c = ''"'' @ c @ ''"''\<close>

text \<open>
  The category filter of \<open>getGraphData\<close>: the block between \<open>let categoryFilters = ''\<close> and
  the store filters. A template literal is the list of its lines joined by line feeds.
\<close>

definition categoryFilters :: "string list \<Rightarrow> string list \<Rightarrow> string list \<Rightarrow> string" where
  "categoryFilters cats subCats endCats =
     (if endCats \<noteq> [] \<or> subCats \<noteq> [] \<or> cats \<noteq> [] then
        let pattern = join nl
              ['''',
               ''        ?product :hasCategory ?cat .'',
               ''        ?cat rdfs:label ?catName .'',
               ''      ''];
            filterConditions =
              (if endCats \<noteq> [] then
                 [''?catName IN ('' @ join '','' (map quoted endCats) @ '')'']
               else if subCats \<noteq> [] then
                 [''?catName IN ('' @ join '','' (map quoted subCats) @ '')'']
               else if cats \<noteq> [] then
                 [''?catName IN ('' @ join '','' (map quoted cats) @ '')'']
               else [])
        in if filterConditions \<noteq> []
           then pattern @ ''FILTER('' @ join '' || '' filterConditions @ '')''
           else pattern
      else '''')"

definition storeFilters :: "string list \<Rightarrow> string" where
  "storeFilters selStores =
     (if selStores \<noteq> [] then
        let storeValues = join '','' (map quoted selStores)
        in join nl
             ['''',
              ''        ?product :soldBy ?storeNode .'',
              ''        ?storeNode rdfs:label ?storeName .'',
              ''        FILTER(?storeName IN ('' @ storeValues @ ''))'',
              ''      '']
      else '''')"

text \<open>A bound is \<open>number | null\<close>; \<open>None\<close> is \<open>null\<close> (or \<open>undefined\<close>), which \<open>!= null\<close> rejects.\<close>

definition priceDiscountFilters ::
  "runtime \<Rightarrow> jsnum option \<Rightarrow> jsnum option \<Rightarrow> jsnum option \<Rightarrow> jsnum option \<Rightarrow> string" where
  "priceDiscountFilters rt minP maxP minD maxD =
     (case minP of None \<Rightarrow> ''''
      | Some v \<Rightarrow> ''FILTER(xsd:decimal(?regularPrice) >= '' @ num_to_string rt v @ '')'' @ nl)
     @ (case maxP of None \<Rightarrow> ''''
      | Some v \<Rightarrow> ''FILTER(xsd:decimal(?regularPrice) <= '' @ num_to_string rt v @ '')'' @ nl)
     @ (case minD of None \<Rightarrow> ''''
      | Some v \<Rightarrow> ''FILTER(xsd:decimal(?discountPercent) >= '' @ num_to_string rt v @ '')'' @ nl)
     @ (case maxD of None \<Rightarrow> ''''
      | Some v \<Rightarrow> ''FILTER(xsd:decimal(?discountPercent) <= '' @ num_to_string rt v @ '')'' @ nl)"

text \<open>
  \<open>getGraphData\<close> renders the query it posts. The three filter fragments are computed once and
  interpolated into both subqueries.
\<close>

definition getGraphData ::
  "runtime \<Rightarrow> jsnum \<Rightarrow> jsnum \<Rightarrow> string list \<Rightarrow> string list \<Rightarrow> string list \<Rightarrow>
   jsnum option \<Rightarrow> jsnum option \<Rightarrow> jsnum option \<Rightarrow> jsnum option \<Rightarrow> string list \<Rightarrow> string" where
  \<open>getGraphData rt limit offset cats subCats endCats minP maxP minD maxD selStores =
     (let cf = categoryFilters cats subCats endCats;
          sf = storeFilters selStores;
          pf = priceDiscountFilters rt minP maxP minD maxD
      in join nl
      ['''',
       ''    PREFIX : <http://www.semanticweb.org/andrej/ontologies/2025/7/products-ontology/>'',
       ''    PREFIX rdfs: <http://www.w3.org/2000/01/rdf-schema#>'',
       ''    PREFIX xsd: <http://www.w3.org/2001/XMLSchema#>'',
       '''',
       ''    SELECT ?product ?title ?store ?fullCategory ?regularPrice ?discountedPrice ?discountPercent ?url ?totalCount'',
       ''    WHERE {'',
       '''',
       ''      # --- Paginated data subquery ---'',
       ''      {'',
       ''        SELECT ?product ?title ?store (GROUP_CONCAT(DISTINCT ?categoryLabel; SEPARATOR=" > ") AS ?fullCategory)'',
       ''              ?regularPrice ?discountedPrice ?discountPercent ?url'',
       ''        WHERE {'',
       ''          ?product a :Product .'',
       ''          OPTIONAL { ?product :hasTitle ?title . }'',
       ''          OPTIONAL { ?product :soldBy [ rdfs:label ?store ] . }'',
       ''          OPTIONAL { ?product :hasRegularPrice ?regularPrice . }'',
       ''          OPTIONAL { ?product :hasDiscountedPrice ?discountedPrice . }'',
       ''          OPTIONAL { ?product :hasDiscountPercent ?discountPercent . }'',
       ''          OPTIONAL { ?product :hasUrl ?url . }'',
       ''          OPTIONAL { ?product :hasCategory ?anyCat . ?anyCat rdfs:label ?categoryLabel . }'',
       '''',
       ''          '' @ cf,
       ''          '' @ sf,
       ''          '' @ pf,
       ''        }'',
       ''        GROUP BY ?product ?title ?store ?regularPrice ?discountedPrice ?discountPercent ?url'',
       ''        ORDER BY ?title'',
       ''        LIMIT '' @ num_to_string rt limit,
       ''        OFFSET '' @ num_to_string rt offset,
       ''      }'',
       '''',
       ''      # --- Total count subquery ---'',
       ''      {'',
       ''        SELECT (COUNT(DISTINCT ?product) AS ?totalCount)'',
       ''        WHERE {'',
       ''          ?product a :Product .'',
       ''          OPTIONAL { ?product :hasRegularPrice ?regularPrice . }'',
       ''          OPTIONAL { ?product :hasDiscountPercent ?discountPercent . }'',
       ''          OPTIONAL { ?product :hasCategory ?cat . ?cat rdfs:label ?catName . }'',
       ''          OPTIONAL { ?product :soldBy ?storeNode . ?storeNode rdfs:label ?storeName . }'',
       '''',
       ''          '' @ cf,
       ''          '' @ sf,
       ''          '' @ pf,
       ''        }'',
       ''      }'',
       ''    }''])\<close>

text \<open>The two lookups of the cascade: the children of the node labelled by the argument.\<close>

definition getSubCategories :: "string \<Rightarrow> string" where
  \<open>getSubCategories category = join nl
      ['''',
       ''      PREFIX : <http://www.semanticweb.org/andrej/ontologies/2025/7/products-ontology/>'',
       ''      PREFIX rdfs: <http://www.w3.org/2000/01/rdf-schema#>'',
       ''      SELECT DISTINCT ?subCategoryLabel WHERE {'',
       ''        ?parentCategory rdfs:label "'' @ category @ ''" .'',
       ''        ?parentCategory :hasSubCategory ?subCategory .'',
       ''        ?subCategory rdfs:label ?subCategoryLabel .'',
       ''      } ORDER BY ?subCategoryLabel'']\<close>

definition getEndCategories :: "string \<Rightarrow> string" where
  \<open>getEndCategories subCategory = join nl
      ['''',
       ''      PREFIX : <http://www.semanticweb.org/andrej/ontologies/2025/7/products-ontology/>'',
       ''      PREFIX rdfs: <http://www.w3.org/2000/01/rdf-schema#>'',
       ''      SELECT DISTINCT ?endCategoryLabel WHERE {'',
       ''        ?parentSub rdfs:label "'' @ subCategory @ ''" .'',
       ''        ?parentSub :hasSubCategory ?endCategory .'',
       ''        ?endCategory rdfs:label ?endCategoryLabel .'',
       ''      } ORDER BY ?endCategoryLabel'']\<close>

section \<open>The filter and pagination controller (\<open>tech-data.component.ts\<close>)\<close>

text \<open>
  One value of a binding, and a binding: the object mapping variable names to values that the
  SPARQL JSON results format carries for each row.
\<close>

record rdf_term =
  term_type :: string
  term_value :: string

type_synonym SparqlBinding = "string \<rightharpoonup> rdf_term"

text \<open>The fields of \<open>TechDataComponent\<close> that the handlers below read or write.\<close>

record component =
  categories :: "string list"
  subCategories :: "string list"
  endCategories :: "string list"
  stores :: "string list"
  selectedCategories :: "string list"
  selectedSubCategories :: "string list"
  selectedEndCategories :: "string list"
  selectedStores :: "string list"
  minPrice :: "jsnum option"
  maxPrice :: "jsnum option"
  minDiscount :: "jsnum option"
  maxDiscount :: "jsnum option"
  tableData :: "SparqlBinding list"
  isLoading :: bool
  error :: "string option"
  currentPage :: jsnum
  totalPages :: jsnum

text \<open>\<open>public pageSize = 30\<close>; no handler assigns it.\<close>

definition pageSize :: jsnum where
  "pageSize = Fin 30"

text \<open>
  A handler returns the component after its synchronous part together with the queries it
  posted. What an HTTP call delivers later is either an error or the bindings of the response;
  a subscriber is a function of that.
\<close>

datatype http_result = HttpError | HttpOk "SparqlBinding list"

datatype js_error = TypeError

subsection \<open>The cascade\<close>

text \<open>
  \<open>bindings.map(b => b[key].value)\<close>: reading \<open>.value\<close> of a variable the binding does not
  have throws.
\<close>

fun labels :: "string \<Rightarrow> SparqlBinding list \<Rightarrow> js_error + string list" where
  "labels key [] = Inr []"
| "labels key (b # bs) =
     (case b key of
        None \<Rightarrow> Inl TypeError
      | Some t \<Rightarrow> (case labels key bs of Inl e \<Rightarrow> Inl e | Inr vs \<Rightarrow> Inr (term_value t # vs)))"

text \<open>
  The pipe on each lookup, \<open>map(...)\<close> followed by \<open>catchError(() => of([]))\<close>: an error of the
  call, or one thrown by the mapping, becomes the empty array.
\<close>

definition lookup_pipe :: "string \<Rightarrow> http_result \<Rightarrow> string list" where
  "lookup_pipe key r =
     (case r of
        HttpError \<Rightarrow> []
      | HttpOk bs \<Rightarrow> (case labels key bs of Inl e \<Rightarrow> [] | Inr vs \<Rightarrow> vs))"

text \<open>\<open>[...new Set(xs)]\<close>: the elements in the order of their first occurrence.\<close>

definition set_add :: "'a list \<Rightarrow> 'a \<Rightarrow> 'a list" where
  "set_add seen x = (if x \<in> set seen then seen else seen @ [x])"

definition new_Set :: "'a list \<Rightarrow> 'a list" where
  "new_Set xs = foldl set_add [] xs"

definition loadSubCategories :: "component \<Rightarrow> component \<times> string list" where
  "loadSubCategories st =
     (let st1 = st\<lparr>subCategories := [], selectedSubCategories := [],
                    endCategories := [], selectedEndCategories := []\<rparr>
      in if selectedCategories st1 = [] then (st1, [])
         else (st1, map getSubCategories (selectedCategories st1)))"

text \<open>
  The subscriber of \<open>forkJoin\<close>: it runs once, when every lookup has delivered, on the piped
  results in the order of the lookups.
\<close>

definition subCategories_joined :: "http_result list \<Rightarrow> component \<Rightarrow> component" where
  "subCategories_joined results st =
     (let allSubCategories = concat (map (lookup_pipe ''subCategoryLabel'') results)
      in st\<lparr>subCategories := new_Set allSubCategories\<rparr>)"

definition loadEndCategories :: "component \<Rightarrow> component \<times> string list" where
  "loadEndCategories st =
     (let st1 = st\<lparr>endCategories := [], selectedEndCategories := []\<rparr>
      in if selectedSubCategories st1 = [] then (st1, [])
         else (st1, map getEndCategories (selectedSubCategories st1)))"

definition endCategories_joined :: "http_result list \<Rightarrow> component \<Rightarrow> component" where
  "endCategories_joined results st =
     (let allEndCategories = concat (map (lookup_pipe ''endCategoryLabel'') results)
      in st\<lparr>endCategories := new_Set allEndCategories\<rparr>)"

text \<open>The checkbox handlers; \<open>isChecked\<close> is the state of the checkbox of the event.\<close>

definition onCategoryChange :: "string \<Rightarrow> bool \<Rightarrow> component \<Rightarrow> component \<times> string list" where
  "onCategoryChange category isChecked st =
     loadSubCategories
       (if isChecked then st\<lparr>selectedCategories := selectedCategories st @ [category]\<rparr>
        else st\<lparr>selectedCategories := filter (\<lambda>c. c \<noteq> category) (selectedCategories st)\<rparr>)"

definition onSubCategoryChange :: "string \<Rightarrow> bool \<Rightarrow> component \<Rightarrow> component \<times> string list" where
  "onSubCategoryChange subCategory isChecked st =
     loadEndCategories
       (if isChecked then st\<lparr>selectedSubCategories := selectedSubCategories st @ [subCategory]\<rparr>
        else st\<lparr>selectedSubCategories :=
                  filter (\<lambda>s. s \<noteq> subCategory) (selectedSubCategories st)\<rparr>)"

datatype chip = Category | Sub | End | Store

fun removeChip :: "chip \<Rightarrow> string \<Rightarrow> component \<Rightarrow> component \<times> string list" where
  "removeChip Category v st =
     loadSubCategories (st\<lparr>selectedCategories := filter (\<lambda>c. c \<noteq> v) (selectedCategories st)\<rparr>)"
| "removeChip Sub v st =
     loadEndCategories
       (st\<lparr>selectedSubCategories := filter (\<lambda>s. s \<noteq> v) (selectedSubCategories st)\<rparr>)"
| "removeChip End v st =
     (st\<lparr>selectedEndCategories := filter (\<lambda>e. e \<noteq> v) (selectedEndCategories st)\<rparr>, [])"
| "removeChip Store v st =
     (st\<lparr>selectedStores := filter (\<lambda>s. s \<noteq> v) (selectedStores st)\<rparr>, [])"

subsection \<open>The listing and its pages\<close>

text \<open>The synchronous part of \<open>fetchData\<close>: the flags, the offset, and the query posted.\<close>

definition fetchData :: "runtime \<Rightarrow> component \<Rightarrow> component \<times> string" where
  "fetchData rt st =
     (let st1 = st\<lparr>isLoading := True, error := None\<rparr>;
          offset = js_mul (js_sub (currentPage st1) (Fin 1)) pageSize
      in (st1, getGraphData rt pageSize offset
                 (selectedCategories st1) (selectedSubCategories st1) (selectedEndCategories st1)
                 (minPrice st1) (maxPrice st1) (minDiscount st1) (maxDiscount st1)
                 (selectedStores st1)))"

text \<open>
  The \<open>next\<close> subscriber. \<open>this.tableData[0]\<close> is \<open>undefined\<close> on an empty page and
  \<open>row['totalCount']\<close> is \<open>undefined\<close> on a row without the variable; reading a property of
  \<open>undefined\<close> throws, after \<open>tableData\<close> has been assigned and before the two assignments
  that follow. The left result carries the component as the throw leaves it.
\<close>

definition fetchData_next ::
  "runtime \<Rightarrow> SparqlBinding list \<Rightarrow> component \<Rightarrow> (js_error \<times> component) + component" where
  "fetchData_next rt bindings st =
     (let st1 = st\<lparr>tableData := bindings\<rparr>
      in case tableData st1 of
           [] \<Rightarrow> Inl (TypeError, st1)
         | row # _ \<Rightarrow>
             (case row ''totalCount'' of
                None \<Rightarrow> Inl (TypeError, st1)
              | Some t \<Rightarrow>
                  Inr (st1\<lparr>totalPages :=
                              js_or (Math_ceil (js_div (to_Number rt (term_value t)) pageSize))
                                    (Fin 1),
                            isLoading := False\<rparr>)))"

text \<open>The \<open>error\<close> subscriber.\<close>

definition fetchData_error :: "component \<Rightarrow> component" where
  "fetchData_error st =
     st\<lparr>error := Some ''Failed to fetch data from GraphDB. Please try again.'',
        isLoading := False\<rparr>"

definition applyFilters :: "runtime \<Rightarrow> component \<Rightarrow> component \<times> string" where
  "applyFilters rt st = fetchData rt (st\<lparr>currentPage := Fin 1\<rparr>)"

text \<open>\<open>goToPage\<close>; \<open>input\<close> is the text of the page box.\<close>

definition goToPage :: "runtime \<Rightarrow> string \<Rightarrow> component \<Rightarrow> component \<times> string" where
  "goToPage rt input st =
     (let page = to_Number rt input;
          page = (if isNaN page \<or> js_less page (Fin 1) then Fin 1 else page);
          page = (if js_less (totalPages st) page then totalPages st else page)
      in fetchData rt (st\<lparr>currentPage := page\<rparr>))"

text \<open>
  The component as its field initialisers leave it, and the values the examples run on: a
  runtime that answers \<open>NaN\<close> and the empty text outside the plain cases (no example
  reaches them), and a literal term.
\<close>

definition initial_component :: component where
  "initial_component =
     \<lparr>categories = [], subCategories = [], endCategories = [], stores = [],
      selectedCategories = [], selectedSubCategories = [], selectedEndCategories = [],
      selectedStores = [],
      minPrice = None, maxPrice = None, minDiscount = None, maxDiscount = None,
      tableData = [], isLoading = True, error = None,
      currentPage = Fin 1, totalPages = Fin 1\<rparr>"

definition example_runtime :: runtime where
  "example_runtime = \<lparr>number_of_other = (\<lambda>s. NaN), string_of_other = (\<lambda>q. '''')\<rparr>"

definition literal :: "string \<Rightarrow> rdf_term" where
  "literal v = \<lparr>term_type = ''literal'', term_value = v\<rparr>"

section \<open>The rendered query, line by line\<close>

text \<open>
  The shapes the properties below compare the rendered text with: the category filter that
  references exactly the labels \<open>ls\<close>, and the lines of the query around the two places
  where the filters stand.
\<close>

definition category_filter_for :: "string list \<Rightarrow> string" where
  "category_filter_for ls = join nl
     ['''',
      ''        ?product :hasCategory ?cat .'',
      ''        ?cat rdfs:label ?catName .'',
      ''      FILTER(?catName IN ('' @ join '','' (map quoted ls) @ ''))'']"

definition filter_lines :: "string \<Rightarrow> string \<Rightarrow> string \<Rightarrow> string list" where
  "filter_lines cf sf pf = [''          '' @ cf, ''          '' @ sf, ''          '' @ pf]"

definition page_head :: "string list" where
  \<open>page_head =
      ['''',
       ''    PREFIX : <http://www.semanticweb.org/andrej/ontologies/2025/7/products-ontology/>'',
       ''    PREFIX rdfs: <http://www.w3.org/2000/01/rdf-schema#>'',
       ''    PREFIX xsd: <http://www.w3.org/2001/XMLSchema#>'',
       '''',
       ''    SELECT ?product ?title ?store ?fullCategory ?regularPrice ?discountedPrice ?discountPercent ?url ?totalCount'',
       ''    WHERE {'',
       '''',
       ''      # --- Paginated data subquery ---'',
       ''      {'',
       ''        SELECT ?product ?title ?store (GROUP_CONCAT(DISTINCT ?categoryLabel; SEPARATOR=" > ") AS ?fullCategory)'',
       ''              ?regularPrice ?discountedPrice ?discountPercent ?url'',
       ''        WHERE {'',
       ''          ?product a :Product .'',
       ''          OPTIONAL { ?product :hasTitle ?title . }'',
       ''          OPTIONAL { ?product :soldBy [ rdfs:label ?store ] . }'',
       ''          OPTIONAL { ?product :hasRegularPrice ?regularPrice . }'',
       ''          OPTIONAL { ?product :hasDiscountedPrice ?discountedPrice . }'',
       ''          OPTIONAL { ?product :hasDiscountPercent ?discountPercent . }'',
       ''          OPTIONAL { ?product :hasUrl ?url . }'',
       ''          OPTIONAL { ?product :hasCategory ?anyCat . ?anyCat rdfs:label ?categoryLabel . }'',
       '''']\<close>

definition page_window :: "string \<Rightarrow> string \<Rightarrow> string list" where
  "page_window limit_text offset_text =
      [''        }'',
       ''        GROUP BY ?product ?title ?store ?regularPrice ?discountedPrice ?discountPercent ?url'',
       ''        ORDER BY ?title'',
       ''        LIMIT '' @ limit_text,
       ''        OFFSET '' @ offset_text,
       ''      }'']"

definition count_head :: "string list" where
  "count_head =
      ['''',
       ''      # --- Total count subquery ---'',
       ''      {'',
       ''        SELECT (COUNT(DISTINCT ?product) AS ?totalCount)'',
       ''        WHERE {'',
       ''          ?product a :Product .'',
       ''          OPTIONAL { ?product :hasRegularPrice ?regularPrice . }'',
       ''          OPTIONAL { ?product :hasDiscountPercent ?discountPercent . }'',
       ''          OPTIONAL { ?product :hasCategory ?cat . ?cat rdfs:label ?catName . }'',
       ''          OPTIONAL { ?product :soldBy ?storeNode . ?storeNode rdfs:label ?storeName . }'',
       '''']"

definition query_tail :: "string list" where
  "query_tail = [''        }'', ''      }'', ''    }'']"

text \<open>The three filter lines for the selections and bounds the component holds.\<close>

definition selected_filter_lines :: "runtime \<Rightarrow> component \<Rightarrow> string list" where
  "selected_filter_lines rt st =
     filter_lines
       (categoryFilters (selectedCategories st) (selectedSubCategories st)
          (selectedEndCategories st))
       (storeFilters (selectedStores st))
       (priceDiscountFilters rt (minPrice st) (maxPrice st) (minDiscount st) (maxDiscount st))"

section \<open>Properties of the query builder\<close>

text \<open>The decimal digits of the numbers in the examples.\<close>

lemma dec_string_0: "dec_string 0 = ''0''"
  by code_simp

lemma dec_string_30: "dec_string 30 = ''30''"
  by code_simp

lemma dec_string_60: "dec_string 60 = ''60''"
  by code_simp

text \<open>
  C1. \<open>getGraphData\<close> applies exactly one category-filter branch, the most specific first:
  with end categories selected the filter references exactly those labels, whatever the
  other two selections are; with none of them but subcategories selected it references
  exactly the subcategories; with only top categories selected it references exactly those;
  with nothing selected no category filter is emitted.
\<close>

theorem categoryFilters_precedence:
  "(endCats \<noteq> [] \<longrightarrow>
      categoryFilters cats subCats endCats = category_filter_for endCats)
 \<and> (endCats = [] \<and> subCats \<noteq> [] \<longrightarrow>
      categoryFilters cats subCats endCats = category_filter_for subCats)
 \<and> (endCats = [] \<and> subCats = [] \<and> cats \<noteq> [] \<longrightarrow>
      categoryFilters cats subCats endCats = category_filter_for cats)
 \<and> (endCats = [] \<and> subCats = [] \<and> cats = [] \<longrightarrow>
      categoryFilters cats subCats endCats = '''')"
  by (simp add: categoryFilters_def category_filter_for_def Let_def)

theorem categoryFilters_precedence_witness:
  \<open>categoryFilters [''Laptops''] [''Gaming''] [''RTX'', ''GTX''] =
     join nl ['''',
       ''        ?product :hasCategory ?cat .'',
       ''        ?cat rdfs:label ?catName .'',
       ''      FILTER(?catName IN ("RTX","GTX"))'']
 \<and> categoryFilters [''Laptops''] [''Gaming''] [] =
     join nl ['''',
       ''        ?product :hasCategory ?cat .'',
       ''        ?cat rdfs:label ?catName .'',
       ''      FILTER(?catName IN ("Gaming"))'']
 \<and> categoryFilters [''Laptops''] [] [] =
     join nl ['''',
       ''        ?product :hasCategory ?cat .'',
       ''        ?cat rdfs:label ?catName .'',
       ''      FILTER(?catName IN ("Laptops"))'']
 \<and> categoryFilters [] [] [] = ''''\<close>
  using categoryFilters_precedence [where cats = "[''Laptops'']" and subCats = "[''Gaming'']"
          and endCats = "[''RTX'', ''GTX'']"]
        categoryFilters_precedence [where cats = "[''Laptops'']" and subCats = "[''Gaming'']"
          and endCats = "[]"]
        categoryFilters_precedence [where cats = "[''Laptops'']" and subCats = "[]"
          and endCats = "[]"]
        categoryFilters_precedence [where cats = "[]" and subCats = "[]" and endCats = "[]"]
  by (simp add: category_filter_for_def quoted_def)

text \<open>
  C9. The count subquery is built from the same filter predicates as the paginated
  subquery: the rendered query is its fixed lines with the same three filter lines, holding
  the category, store and price/discount fragments, standing in both subqueries.
\<close>

theorem count_subquery_same_filters:
  "getGraphData rt limit offset cats subCats endCats minP maxP minD maxD selStores =
     join nl
       (page_head
        @ filter_lines (categoryFilters cats subCats endCats) (storeFilters selStores)
            (priceDiscountFilters rt minP maxP minD maxD)
        @ page_window (num_to_string rt limit) (num_to_string rt offset)
        @ count_head
        @ filter_lines (categoryFilters cats subCats endCats) (storeFilters selStores)
            (priceDiscountFilters rt minP maxP minD maxD)
        @ query_tail)"
  unfolding getGraphData_def Let_def page_head_def filter_lines_def page_window_def
    count_head_def query_tail_def
  by (simp only: append_Cons append_Nil)

theorem count_subquery_same_filters_witness:
  \<open>getGraphData example_runtime (Fin 30) (Fin 0) [''Laptops''] [] [] None None None None
      [''Store A''] =
     join nl
       (page_head
        @ filter_lines (category_filter_for [''Laptops''])
            (join nl ['''',
               ''        ?product :soldBy ?storeNode .'',
               ''        ?storeNode rdfs:label ?storeName .'',
               ''        FILTER(?storeName IN ("Store A"))'',
               ''      '']) ''''
        @ page_window ''30'' ''0''
        @ count_head
        @ filter_lines (category_filter_for [''Laptops''])
            (join nl ['''',
               ''        ?product :soldBy ?storeNode .'',
               ''        ?storeNode rdfs:label ?storeName .'',
               ''        FILTER(?storeName IN ("Store A"))'',
               ''      '']) ''''
        @ query_tail)\<close>
  using count_subquery_same_filters [of example_runtime "Fin 30" "Fin 0" "[''Laptops'']" "[]" "[]"
          None None None None "[''Store A'']"]
  by (simp add: categoryFilters_def category_filter_for_def storeFilters_def
        priceDiscountFilters_def quoted_def is_plain_integer_def dec_string_30 dec_string_0
        del: dec_string.simps)

section \<open>Properties of the controller\<close>

subsection \<open>The offset of a page\<close>

lemma num_to_string_int:
  assumes "0 \<le> m" and "m \<le> 2 ^ 53"
  shows "num_to_string rt (Fin (of_int m)) = dec_string (nat m)"
proof -
  have "\<bar>(of_int m :: rat)\<bar> \<le> 2 ^ 53"
    using assms by simp
  then have "is_plain_integer (of_int m)"
    by (simp add: is_plain_integer_def)
  moreover have "\<not> (of_int m :: rat) < 0"
    using assms by simp
  ultimately show ?thesis
    using assms by simp
qed

lemma num_to_string_pageSize: "num_to_string rt pageSize = ''30''"
  using num_to_string_int [of 30 rt]
  by (simp add: pageSize_def dec_string_30 del: dec_string.simps)

lemma offset_of_page:
  "js_mul (js_sub (Fin (of_int n)) (Fin 1)) pageSize = Fin (of_int ((n - 1) * 30))"
  by (simp add: pageSize_def)

text \<open>
  C4. For every page number \<open>n \<ge> 1\<close> the query that \<open>fetchData\<close> posts carries the limit 30
  and the offset \<open>(n - 1) * 30\<close>, printed in decimal digits. The offset is taken up to
  \<open>2 ^ 53\<close>, where the subtraction and the product are exact in doubles and the number
  prints as its digits.
\<close>

theorem fetchData_offset:
  assumes "currentPage st = Fin (of_int n)" and "1 \<le> n" and "(n - 1) * 30 \<le> 2 ^ 53"
  shows "snd (fetchData rt st) =
     join nl
       (page_head @ selected_filter_lines rt st
        @ page_window ''30'' (dec_string (nat ((n - 1) * 30)))
        @ count_head @ selected_filter_lines rt st @ query_tail)"
proof -
  have m: "0 \<le> (n - 1) * 30"
    using assms(2) by simp
  have off: "num_to_string rt (js_mul (js_sub (currentPage st) (Fin 1)) pageSize)
      = dec_string (nat ((n - 1) * 30))"
    unfolding assms(1) offset_of_page using num_to_string_int [OF m assms(3)] .
  have lines: "getGraphData rt lim ofs cs ss es a b c d sel =
     join nl
       (page_head
        @ filter_lines (categoryFilters cs ss es) (storeFilters sel)
            (priceDiscountFilters rt a b c d)
        @ page_window (num_to_string rt lim) (num_to_string rt ofs)
        @ count_head
        @ filter_lines (categoryFilters cs ss es) (storeFilters sel)
            (priceDiscountFilters rt a b c d)
        @ query_tail)" for lim ofs cs ss es a b c d sel
    unfolding getGraphData_def Let_def page_head_def filter_lines_def page_window_def
      count_head_def query_tail_def
    by (simp only: append_Cons append_Nil)
  show ?thesis
    unfolding fetchData_def Let_def snd_conv lines selected_filter_lines_def
    by (simp add: off num_to_string_pageSize)
qed

theorem fetchData_offset_witness:
  "(1::int) \<le> 3 \<and> ((3::int) - 1) * 30 \<le> 2 ^ 53
 \<and> snd (fetchData example_runtime (initial_component\<lparr>currentPage := Fin 3\<rparr>)) =
     join nl
       (page_head @ filter_lines '''' '''' ''''
        @ page_window ''30'' ''60''
        @ count_head @ filter_lines '''' '''' '''' @ query_tail)"
  using fetchData_offset [of "initial_component\<lparr>currentPage := Fin 3\<rparr>" 3 example_runtime]
  by (simp add: selected_filter_lines_def initial_component_def categoryFilters_def
        storeFilters_def priceDiscountFilters_def dec_string_60 del: dec_string.simps)

subsection \<open>The page count\<close>

lemma decimal_61: "is_decimal ''61''" "dec_value ''61'' = 61"
  by (simp_all add: is_decimal_def dec_value_def is_digit_def)

lemma decimal_0: "is_decimal ''0''" "dec_value ''0'' = 0"
  by (simp_all add: is_decimal_def dec_value_def is_digit_def)

lemma decimal_99: "is_decimal ''99''" "dec_value ''99'' = 99"
  by (simp_all add: is_decimal_def dec_value_def is_digit_def)

lemma decimal_3: "is_decimal ''3''" "dec_value ''3'' = 3"
  by (simp_all add: is_decimal_def dec_value_def is_digit_def)

lemma not_decimal_abc: "\<not> is_decimal ''abc''"
  by (simp add: is_decimal_def is_digit_def)

lemma ceiling_61_30: "\<lceil>(61::rat) / 30\<rceil> = 3"
  by (simp add: ceiling_eq_iff)

text \<open>The page count of a count \<open>n\<close>: the ceiling of \<open>n / 30\<close>, and 1 where that is 0.\<close>

lemma totalPages_of_count:
  "js_or (Math_ceil (js_div (Fin (of_nat n)) pageSize)) (Fin 1)
     = Fin (of_int (max 1 \<lceil>(of_nat n :: rat) / 30\<rceil>))"
proof (cases "n = 0")
  case True
  then show ?thesis
    by (simp add: js_or_def truthy_def pageSize_def)
next
  case False
  then have "0 < (of_nat n :: rat) / 30"
    by simp
  then have pos: "1 \<le> \<lceil>(of_nat n :: rat) / 30\<rceil>"
    by (simp add: le_ceiling_iff)
  then have "\<lceil>(of_nat n :: rat) / 30\<rceil> \<noteq> 0"
    by linarith
  with pos show ?thesis
    by (simp add: js_or_def truthy_def pageSize_def max_def)
qed

text \<open>
  C2. An empty page is not handled: \<open>bindings\<close> is the empty list, the subscriber throws a
  \<open>TypeError\<close> after assigning \<open>tableData\<close>, and the component is left loading, with the page
  count it had.
\<close>

theorem fetchData_next_empty_page:
  "fetchData_next rt [] (fst (fetchData rt st)) =
     Inl (TypeError, st\<lparr>isLoading := True, error := None, tableData := []\<rparr>)"
  by (simp add: fetchData_next_def fetchData_def Let_def)

theorem fetchData_next_empty_page_witness:
  "fetchData_next example_runtime [] (fst (fetchData example_runtime initial_component)) =
     Inl (TypeError, initial_component)"
  using fetchData_next_empty_page [of example_runtime initial_component]
  by (simp add: initial_component_def)

text \<open>
  C3. For a count given as a decimal numeral, the page count is the ceiling of the count
  over the page size 30, and at least 1: the count 0 gives 1 page and the count 61 gives 3.
\<close>

theorem totalPages_ceil:
  assumes "row ''totalCount'' = Some t" and "is_decimal (term_value t)"
  shows "fetchData_next rt (row # rest) st =
           Inr (st\<lparr>tableData := row # rest,
                   totalPages :=
                     Fin (of_int (max 1 \<lceil>(of_nat (dec_value (term_value t)) :: rat) / 30\<rceil>)),
                   isLoading := False\<rparr>)"
  using assms by (simp add: fetchData_next_def to_Number_def totalPages_of_count)

theorem totalPages_ceil_witness:
  "fetchData_next example_runtime [[''totalCount'' \<mapsto> literal ''61'']] initial_component =
     Inr (initial_component\<lparr>tableData := [[''totalCount'' \<mapsto> literal ''61'']],
            totalPages := Fin 3, isLoading := False\<rparr>)
 \<and> fetchData_next example_runtime [[''totalCount'' \<mapsto> literal ''0'']] initial_component =
     Inr (initial_component\<lparr>tableData := [[''totalCount'' \<mapsto> literal ''0'']],
            totalPages := Fin 1, isLoading := False\<rparr>)"
  using totalPages_ceil [of "[''totalCount'' \<mapsto> literal ''61'']" "literal ''61''"
          example_runtime "[]" initial_component]
        totalPages_ceil [of "[''totalCount'' \<mapsto> literal ''0'']" "literal ''0''"
          example_runtime "[]" initial_component]
  by (simp add: literal_def decimal_61 decimal_0 ceiling_61_30)

text \<open>The page count stays at least 1, from the initial component on.\<close>

lemma totalPages_initial: "js_le (Fin 1) (totalPages initial_component)"
  by (simp add: initial_component_def js_le_def)

lemma totalPages_at_least_1:
  assumes "row ''totalCount'' = Some t" and "is_decimal (term_value t)"
    and "fetchData_next rt (row # rest) st = Inr st'"
  shows "js_le (Fin 1) (totalPages st')"
  using assms
  by (auto simp: fetchData_next_def to_Number_def totalPages_of_count js_le_def)

subsection \<open>A failed fetch\<close>

text \<open>
  C7. When the listing fetch fails, the error subscriber sets the error text and clears the
  loading flag; the table, the current page and the page count are those the component had,
  also those it had when the fetch was issued.
\<close>

theorem fetchData_error_keeps_table:
  "error (fetchData_error st) = Some ''Failed to fetch data from GraphDB. Please try again.''
 \<and> isLoading (fetchData_error st) = False
 \<and> tableData (fetchData_error st) = tableData st
 \<and> currentPage (fetchData_error st) = currentPage st
 \<and> totalPages (fetchData_error st) = totalPages st
 \<and> tableData (fetchData_error (fst (fetchData rt st))) = tableData st
 \<and> currentPage (fetchData_error (fst (fetchData rt st))) = currentPage st
 \<and> totalPages (fetchData_error (fst (fetchData rt st))) = totalPages st"
  by (simp add: fetchData_error_def fetchData_def Let_def)

theorem fetchData_error_keeps_table_witness:
  "fetchData_error (fst (fetchData example_runtime initial_component)) =
     initial_component\<lparr>error := Some ''Failed to fetch data from GraphDB. Please try again.'',
        isLoading := False\<rparr>"
  using fetchData_error_keeps_table [of initial_component example_runtime]
  by (simp add: fetchData_error_def fetchData_def Let_def initial_component_def)

subsection \<open>Going to a page\<close>

text \<open>
  C8. \<open>goToPage\<close> clamps the requested page to the interval from 1 to the page count before
  fetching. Where the page count is at least 1, whatever number the text of the page box
  converts to: the current page ends at least 1 and at most the page count; a request that
  is not a number or is below 1 ends on page 1; a request within the interval is kept; a
  request beyond the last page ends on the last page; and the fetch is the one of the
  resulting page.
\<close>

theorem goToPage_clamps:
  assumes "js_le (Fin 1) (totalPages st)"
  shows "js_le (Fin 1) (currentPage (fst (goToPage rt input st)))
       \<and> js_le (currentPage (fst (goToPage rt input st)))
               (totalPages (fst (goToPage rt input st)))
       \<and> (isNaN (to_Number rt input) \<or> js_less (to_Number rt input) (Fin 1) \<longrightarrow>
            currentPage (fst (goToPage rt input st)) = Fin 1)
       \<and> (js_le (Fin 1) (to_Number rt input) \<and> js_le (to_Number rt input) (totalPages st) \<longrightarrow>
            currentPage (fst (goToPage rt input st)) = to_Number rt input)
       \<and> (js_less (totalPages st) (to_Number rt input) \<longrightarrow>
            currentPage (fst (goToPage rt input st)) = totalPages st)
       \<and> totalPages (fst (goToPage rt input st)) = totalPages st
       \<and> goToPage rt input st =
            fetchData rt (st\<lparr>currentPage := currentPage (fst (goToPage rt input st))\<rparr>)"
  using assms
  by (cases "to_Number rt input"; cases "totalPages st")
     (auto simp: goToPage_def fetchData_def Let_def js_le_def isNaN_def)

theorem goToPage_clamps_witness:
  "js_le (Fin 1) (totalPages (initial_component\<lparr>totalPages := Fin 5\<rparr>))
 \<and> currentPage (fst (goToPage example_runtime ''99'' (initial_component\<lparr>totalPages := Fin 5\<rparr>)))
     = Fin 5
 \<and> currentPage (fst (goToPage example_runtime ''3'' (initial_component\<lparr>totalPages := Fin 5\<rparr>)))
     = Fin 3
 \<and> currentPage (fst (goToPage example_runtime ''0'' (initial_component\<lparr>totalPages := Fin 5\<rparr>)))
     = Fin 1
 \<and> currentPage (fst (goToPage example_runtime ''abc'' (initial_component\<lparr>totalPages := Fin 5\<rparr>)))
     = Fin 1"
  using goToPage_clamps [of "initial_component\<lparr>totalPages := Fin 5\<rparr>" example_runtime "''99''"]
        goToPage_clamps [of "initial_component\<lparr>totalPages := Fin 5\<rparr>" example_runtime "''3''"]
        goToPage_clamps [of "initial_component\<lparr>totalPages := Fin 5\<rparr>" example_runtime "''0''"]
        goToPage_clamps [of "initial_component\<lparr>totalPages := Fin 5\<rparr>" example_runtime "''abc''"]
  by (simp add: js_le_def isNaN_def to_Number_def decimal_99 decimal_3 decimal_0
        not_decimal_abc example_runtime_def)

subsection \<open>The cascade\<close>


lemma distinct_foldl_set_add: "distinct acc \<Longrightarrow> distinct (foldl set_add acc xs)"
  by (induction xs arbitrary: acc) (auto simp: set_add_def)


lemma distinct_new_Set: "distinct (new_Set xs)"
  by (simp add: new_Set_def distinct_foldl_set_add)

text \<open>
  C5. Unchecking the only selected top category, or removing its chip, leaves no category
  selected, empties the subcategory and end-category options and selections, and posts no
  lookup.
\<close>

theorem unselect_only_category:
  assumes "set (selectedCategories st) = {c}"
  shows "onCategoryChange c False st =
           (st\<lparr>selectedCategories := [], subCategories := [], selectedSubCategories := [],
               endCategories := [], selectedEndCategories := []\<rparr>, [])
       \<and> removeChip Category c st =
           (st\<lparr>selectedCategories := [], subCategories := [], selectedSubCategories := [],
               endCategories := [], selectedEndCategories := []\<rparr>, [])"
proof -
  have "filter (\<lambda>x. x \<noteq> c) (selectedCategories st) = []"
    using assms by (auto simp: filter_empty_conv)
  then show ?thesis
    by (simp add: onCategoryChange_def loadSubCategories_def Let_def)
qed

theorem unselect_only_category_witness:
  "set (selectedCategories
         (initial_component\<lparr>selectedCategories := [''Laptops''], subCategories := [''Gaming''],
            selectedSubCategories := [''Gaming''], endCategories := [''RTX''],
            selectedEndCategories := [''RTX'']\<rparr>)) = {''Laptops''}
 \<and> onCategoryChange ''Laptops'' False
       (initial_component\<lparr>selectedCategories := [''Laptops''], subCategories := [''Gaming''],
          selectedSubCategories := [''Gaming''], endCategories := [''RTX''],
          selectedEndCategories := [''RTX'']\<rparr>) = (initial_component, [])
 \<and> removeChip Category ''Laptops''
       (initial_component\<lparr>selectedCategories := [''Laptops''], subCategories := [''Gaming''],
          selectedSubCategories := [''Gaming''], endCategories := [''RTX''],
          selectedEndCategories := [''RTX'']\<rparr>) = (initial_component, [])"
  using unselect_only_category
          [of "initial_component\<lparr>selectedCategories := [''Laptops''],
                 subCategories := [''Gaming''], selectedSubCategories := [''Gaming''],
                 endCategories := [''RTX''], selectedEndCategories := [''RTX'']\<rparr>" "''Laptops''"]
  by (simp add: initial_component_def)



text \<open>
  C10. A published option list has no duplicate label, and with no parent selected the
  cascade posts no lookup and leaves the option list empty.
\<close>

theorem published_options_distinct:
  "distinct (subCategories (subCategories_joined rs st))
 \<and> distinct (endCategories (endCategories_joined rs st))
 \<and> (selectedCategories st = [] \<longrightarrow>
       snd (loadSubCategories st) = [] \<and> subCategories (fst (loadSubCategories st)) = [])
 \<and> (selectedSubCategories st = [] \<longrightarrow>
       snd (loadEndCategories st) = [] \<and> endCategories (fst (loadEndCategories st)) = [])"
  by (simp add: loadSubCategories_def loadEndCategories_def Let_def subCategories_joined_def
        endCategories_joined_def distinct_new_Set)

theorem published_options_distinct_witness:
  "selectedCategories initial_component = []
 \<and> selectedSubCategories initial_component = []
 \<and> snd (loadSubCategories initial_component) = []
 \<and> subCategories (fst (loadSubCategories initial_component)) = []
 \<and> snd (loadEndCategories initial_component) = []
 \<and> endCategories (fst (loadEndCategories initial_component)) = []
 \<and> subCategories
       (subCategories_joined
          [HttpOk [[''subCategoryLabel'' \<mapsto> literal ''Gaming'']],
           HttpOk [[''subCategoryLabel'' \<mapsto> literal ''Gaming''],
                   [''subCategoryLabel'' \<mapsto> literal ''Ultrabook'']]]
          initial_component)
     = [''Gaming'', ''Ultrabook'']"
  using published_options_distinct
          [of "[HttpOk [[''subCategoryLabel'' \<mapsto> literal ''Gaming'']],
                HttpOk [[''subCategoryLabel'' \<mapsto> literal ''Gaming''],
                        [''subCategoryLabel'' \<mapsto> literal ''Ultrabook'']]]"
              initial_component]
  by (simp add: initial_component_def subCategories_joined_def lookup_pipe_def
        new_Set_def set_add_def literal_def)

end
